theory Spec2Isabelle
  imports Complex_Main
begin

section \<open>Values, schema nodes and the validation context\<close>

text \<open>
  JavaScript numbers: the finite ones are taken as exact rationals (the validator only
  compares them, tests integrality and takes remainders, all of which are exact on finite
  doubles); \<open>NaN\<close> and the two infinities are separate values.
\<close>

datatype jsnum = NaN | NegInf | Fin rat | PosInf

datatype jsval =
    VUndefined
  | VNull
  | VBool bool
  | VNum jsnum
  | VStr string
  | VArr "jsval list"
  | VObj "(string \<times> jsval) list"

text \<open>
  Schema nodes are JavaScript objects compared by identity (\<open>map.get(schema)\<close>,
  \<open>s !== schema\<close>) and may reference each other cyclically, so they live in a store:
  an address is an index into the list of nodes, and a node refers to other nodes by
  address.
\<close>

type_synonym addr = nat

datatype addl = AddlBool bool | AddlSchema addr

record schema =
  s_type :: "string option"
  s_format :: "string option"
  s_anyOf :: "addr list option"
  s_oneOf :: "addr list option"
  s_allOf :: "addr list option"
  s_not :: "addr option"
  s_items :: "addr option"
  s_properties :: "(string \<times> addr) list option"
  s_additionalProperties :: "addl option"
  s_required :: "string list option"
  s_enum :: "jsval list option"
  s_discriminator :: "string option"
  s_maxItems :: "nat option"
  s_minItems :: "nat option"
  s_uniqueItems :: bool
  s_maxProperties :: "nat option"
  s_minProperties :: "nat option"
  s_maxLength :: "nat option"
  s_minLength :: "nat option"
  s_pattern :: "string option"
  s_maximum :: "jsval option"
  s_minimum :: "jsval option"
  s_exclusiveMaximum :: bool
  s_exclusiveMinimum :: bool
  s_multipleOf :: "jsnum option"
  s_default :: "jsval option"
  s_x_variable :: "string option"
  s_x_template :: "string option"

type_synonym heap = "schema list"

definition lookup :: "heap \<Rightarrow> addr \<Rightarrow> schema option" where
  "lookup h a = (if a < length h then Some (h ! a) else None)"

text \<open>The schema \<open>{}\<close>: every keyword absent.\<close>

definition empty_schema :: schema where
  "empty_schema = \<lparr> s_type = None, s_format = None, s_anyOf = None, s_oneOf = None,
     s_allOf = None, s_not = None, s_items = None, s_properties = None,
     s_additionalProperties = None, s_required = None, s_enum = None,
     s_discriminator = None, s_maxItems = None, s_minItems = None, s_uniqueItems = False,
     s_maxProperties = None, s_minProperties = None, s_maxLength = None,
     s_minLength = None, s_pattern = None, s_maximum = None, s_minimum = None,
     s_exclusiveMaximum = False, s_exclusiveMinimum = False, s_multipleOf = None,
     s_default = None, s_x_variable = None, s_x_template = None \<rparr>"

text \<open>
  The rule configuration \<open>v.options\<close>: one toggle per rule and the maximum depth
  (an absent \<open>depth\<close> behaves as \<open>0\<close>: \<open>undefined > depth\<close> is false).
\<close>

record options =
  o_anyOf :: bool
  o_oneOf :: bool
  o_allOf :: bool
  o_not :: bool
  o_array :: bool
  o_maxItems :: bool
  o_minItems :: bool
  o_uniqueItems :: bool
  o_items :: bool
  o_depth :: nat
  o_binary :: bool
  o_boolean :: bool
  o_byte :: bool
  o_date :: bool
  o_dateTime :: bool
  o_dateExists :: bool
  o_timeExists :: bool
  o_integer :: bool
  o_number :: bool
  o_object :: bool
  o_required :: bool
  o_properties :: bool
  o_additionalProperties :: bool
  o_maxProperties :: bool
  o_minProperties :: bool
  o_string :: bool
  o_maxLength :: bool
  o_minLength :: bool
  o_pattern :: bool
  o_enum :: bool
  o_discriminator :: bool
  o_maximum :: bool
  o_minimum :: bool

text \<open>
  The modules \<open>./is\<close>, \<open>./rx\<close>, \<open>./util\<close>, the version object \<open>v.version\<close> and the
  host's \<open>RegExp\<close>, \<open>Date\<close> and string conversion are not part of the sources at hand;
  the validator takes them as parameters.
\<close>

record ext =
  x_schemaType :: "schema \<Rightarrow> string option"
  x_smart :: "jsval \<Rightarrow> string"
  x_same :: "jsval \<Rightarrow> jsval \<Rightarrow> bool"
  x_toString :: "jsval \<Rightarrow> string"
  x_toNumber :: "jsval \<Rightarrow> jsnum"
  x_is_binary :: "string \<Rightarrow> bool"
  x_is_byte :: "string \<Rightarrow> bool"
  x_is_date :: "string \<Rightarrow> bool"
  x_is_dateTime :: "string \<Rightarrow> bool"
  x_rx_dateTime :: "string \<Rightarrow> (jsnum \<times> jsnum \<times> jsnum \<times> jsnum \<times> jsnum \<times> jsnum) option"
  x_regexp_test :: "string \<Rightarrow> string \<Rightarrow> bool option"
  x_date_value :: "jsval \<Rightarrow> jsnum"
  x_date_utc :: "string \<Rightarrow> (jsnum \<times> jsnum \<times> jsnum)"
  x_date_smart :: "string \<Rightarrow> string"
  x_getDiscriminatorSchema :: "heap \<Rightarrow> addr \<Rightarrow> jsval \<Rightarrow> addr option"
  x_getDiscriminatorKey :: "heap \<Rightarrow> addr \<Rightarrow> jsval \<Rightarrow> jsval"

record ctx =
  c_options :: options
  c_ext :: ext
  c_heap :: heap

text \<open>
  An error record is a pair of path and message; \<open>v.errors\<close> is the sequence of them.
  A thrown exception carries the \<open>v.errors\<close> in place at the moment of the throw.
\<close>

type_synonym error_record = "string \<times> string"
type_synonym errs = "error_record list"

datatype exn = TypeError | RangeError | SyntaxError

type_synonym res = "(exn \<times> errs) + errs"

text \<open>
  Modelled from the spec: the method \<open>v.error(prefix, message)\<close> of the validation
  context (built outside the sources at hand) appends the error record of path and
  message to the accumulating sequence; joined into a text, a record reads as its path
  followed by its message.
\<close>

definition error :: "string \<Rightarrow> string \<Rightarrow> errs \<Rightarrow> errs" where
  "error prefix message es = es @ [(prefix, message)]"

definition error_text :: "error_record \<Rightarrow> string" where
  "error_text r = fst r @ '': '' @ snd r"

section \<open>Numbers\<close>

fun num_lt :: "jsnum \<Rightarrow> jsnum \<Rightarrow> bool" where
  "num_lt NaN _ = False"
| "num_lt _ NaN = False"
| "num_lt NegInf NegInf = False"
| "num_lt NegInf _ = True"
| "num_lt _ NegInf = False"
| "num_lt PosInf _ = False"
| "num_lt _ PosInf = True"
| "num_lt (Fin a) (Fin b) = (a < b)"

fun num_eq :: "jsnum \<Rightarrow> jsnum \<Rightarrow> bool" where
  "num_eq NaN _ = False"
| "num_eq _ NaN = False"
| "num_eq a b = (a = b)"

definition num_gt :: "jsnum \<Rightarrow> jsnum \<Rightarrow> bool" where
  "num_gt a b = num_lt b a"

definition num_le :: "jsnum \<Rightarrow> jsnum \<Rightarrow> bool" where
  "num_le a b = (num_lt a b \<or> num_eq a b)"

definition num_ge :: "jsnum \<Rightarrow> jsnum \<Rightarrow> bool" where
  "num_ge a b = (num_lt b a \<or> num_eq a b)"

text \<open>The remainder operator \<open>%\<close>: the result has the sign of the dividend; a zero
  divisor gives \<open>NaN\<close>.\<close>

fun num_mod :: "jsnum \<Rightarrow> jsnum \<Rightarrow> jsnum" where
  "num_mod (Fin a) (Fin b) =
     (if b = 0 then NaN
      else Fin (a - b * of_int (if 0 \<le> a / b then \<lfloor>a / b\<rfloor> else \<lceil>a / b\<rceil>)))"
| "num_mod (Fin a) PosInf = Fin a"
| "num_mod (Fin a) NegInf = Fin a"
| "num_mod _ _ = NaN"

text \<open>Truthiness of a number: \<open>0\<close> and \<open>NaN\<close> are falsy.\<close>

fun num_truthy :: "jsnum \<Rightarrow> bool" where
  "num_truthy NaN = False"
| "num_truthy (Fin q) = (q \<noteq> 0)"
| "num_truthy _ = True"

definition to_number :: "ext \<Rightarrow> jsval \<Rightarrow> jsnum" where
  "to_number x v = (case v of VNum n \<Rightarrow> n | _ \<Rightarrow> x_toNumber x v)"

fun digit_char :: "nat \<Rightarrow> char" where
  "digit_char n = char_of (48 + n)"

fun show_nat :: "nat \<Rightarrow> string" where
  "show_nat n = (if n < 10 then [digit_char n] else show_nat (n div 10) @ [digit_char (n mod 10)])"

declare show_nat.simps [simp del]

section \<open>The checks shared by the type-specific validators\<close>

text \<open>\<open>_enum(v, prefix, schema, value)\<close>\<close>

definition enum_check :: "ctx \<Rightarrow> string \<Rightarrow> schema \<Rightarrow> jsval \<Rightarrow> errs \<Rightarrow> errs" where
  "enum_check c prefix s val es =
     (case (o_enum (c_options c), s_enum s) of
        (True, Some en) \<Rightarrow>
          if list_ex (x_same (c_ext c) val) en then es
          else error prefix (''Value did not meet enum requirements: '' @ x_smart (c_ext c) val) es
      | _ \<Rightarrow> es)"

text \<open>
  \<open>maxMin(v, prefix, schema, type, maxProperty, minProperty, exclusives, value, maximum,
  minimum)\<close>. The two property names select a toggle and a schema keyword; here the caller
  passes the toggle, the keyword's text when the schema owns it, and the text of the value.
\<close>

definition maxMin ::
  "string \<Rightarrow> string \<Rightarrow> bool \<Rightarrow> string option \<Rightarrow> bool \<Rightarrow> string option \<Rightarrow> bool \<Rightarrow> bool \<Rightarrow> bool \<Rightarrow>
   string \<Rightarrow> jsnum \<Rightarrow> jsnum \<Rightarrow> jsnum \<Rightarrow> errs \<Rightarrow> errs" where
  "maxMin prefix ty omax smax omin smin exclusives exMax exMin vtext val maximum minimum es =
     (let es1 =
        (case (omax, smax) of
           (True, Some mx) \<Rightarrow>
             if exclusives \<and> exMax \<and> num_ge val maximum
             then error prefix (''Expected '' @ ty @ '' to be less than '' @ mx @ ''. Received: '' @ vtext) es
             else if num_gt val maximum
             then error prefix (''Expected '' @ ty @ '' to be less than or equal to '' @ mx @ ''. Received: '' @ vtext) es
             else es
         | _ \<Rightarrow> es)
      in
        (case (omin, smin) of
           (True, Some mn) \<Rightarrow>
             if exclusives \<and> exMin \<and> num_le val minimum
             then error prefix (''Expected '' @ ty @ '' to be greater than '' @ mn @ ''. Received: '' @ vtext) es1
             else if num_lt val minimum
             then error prefix (''Expected '' @ ty @ '' to be greater than or equal to '' @ mn @ ''. Received: '' @ vtext) es1
             else es1
         | _ \<Rightarrow> es1))"

text \<open>The \<open>multipleOf\<close> step of \<open>numerical\<close>:
  \<open>if (schema.multipleOf && value % schema.multipleOf !== 0) v.error(...)\<close>.\<close>

definition multipleOf_check :: "ctx \<Rightarrow> string \<Rightarrow> schema \<Rightarrow> jsnum \<Rightarrow> errs \<Rightarrow> errs" where
  "multipleOf_check c prefix s n es =
     (case s_multipleOf s of
        None \<Rightarrow> es
      | Some m \<Rightarrow>
          if num_truthy m \<and> num_mod n m \<noteq> Fin 0
          then error prefix (''Expected a multiple of '' @ x_toString (c_ext c) (VNum m)
                 @ ''. Received: '' @ x_smart (c_ext c) (VNum n)) es
          else es)"

text \<open>\<open>numerical(descriptor, v, prefix, schema, value)\<close>\<close>

definition numerical :: "string \<Rightarrow> ctx \<Rightarrow> string \<Rightarrow> schema \<Rightarrow> jsnum \<Rightarrow> errs \<Rightarrow> errs" where
  "numerical descriptor c prefix s n es =
     (let x = c_ext c; opts = c_options c;
          es1 = maxMin prefix descriptor
                  (o_maximum opts) (map_option (x_toString x) (s_maximum s))
                  (o_minimum opts) (map_option (x_toString x) (s_minimum s))
                  True (s_exclusiveMaximum s) (s_exclusiveMinimum s)
                  (x_smart x (VNum n)) n
                  (to_number x (case s_maximum s of Some m \<Rightarrow> m | None \<Rightarrow> VUndefined))
                  (to_number x (case s_minimum s of Some m \<Rightarrow> m | None \<Rightarrow> VUndefined))
                  es;
          es2 = multipleOf_check c prefix s n es1
      in enum_check c prefix s (VNum n) es2)"



section \<open>The type-specific validators\<close>

definition andThen :: "res \<Rightarrow> (errs \<Rightarrow> res) \<Rightarrow> res" where
  "andThen r f = (case r of Inl e \<Rightarrow> Inl e | Inr es \<Rightarrow> f es)"

fun join :: "string \<Rightarrow> string list \<Rightarrow> string" where
  "join sep [] = []"
| "join sep [x] = x"
| "join sep (x # y # ys) = x @ sep @ join sep (y # ys)"

definition newline :: string where
  "newline = [char_of (10::nat)]"

text \<open>A keyword's value where the schema owns it, \<open>undefined\<close> otherwise.\<close>

definition or_undefined :: "jsval option \<Rightarrow> jsval" where
  "or_undefined m = (case m of Some v \<Rightarrow> v | None \<Rightarrow> VUndefined)"

definition nat_num :: "nat \<Rightarrow> jsnum" where
  "nat_num n = Fin (of_nat n)"

definition opt_nat_num :: "nat option \<Rightarrow> jsnum" where
  "opt_nat_num m = (case m of Some n \<Rightarrow> nat_num n | None \<Rightarrow> NaN)"

text \<open>
  \<open>validate.string\<close>. The statement \<open>const length = value.length\<close> comes before the test
  of \<open>typeof value\<close>: reading a property of \<open>null\<close> or \<open>undefined\<close> throws a TypeError.
\<close>

definition validate_string :: "ctx \<Rightarrow> string \<Rightarrow> nat \<Rightarrow> schema \<Rightarrow> jsval \<Rightarrow> errs \<Rightarrow> res" where
  "validate_string c prefix depth s val es =
     (let x = c_ext c; opts = c_options c in
      if \<not> o_string opts then Inr es
      else case val of
          VUndefined \<Rightarrow> Inl (TypeError, es)
        | VNull \<Rightarrow> Inl (TypeError, es)
        | VStr str \<Rightarrow>
            (let len = length str;
                 es1 = (case (o_maxLength opts, s_maxLength s) of
                          (True, Some m) \<Rightarrow>
                            if len > m
                            then error prefix (''String length above maximum length of '' @ show_nat m
                                   @ '' with length of '' @ show_nat len @ '': '' @ x_smart x val) es
                            else es
                        | _ \<Rightarrow> es);
                 es2 = (case (o_minLength opts, s_minLength s) of
                          (True, Some m) \<Rightarrow>
                            if len < m
                            then error prefix (''String length below minimum length of '' @ show_nat m
                                   @ '' with length of '' @ show_nat len @ '': '' @ x_smart x val) es1
                            else es1
                        | _ \<Rightarrow> es1)
             in case (o_pattern opts, s_pattern s) of
                  (True, Some p) \<Rightarrow>
                    (case x_regexp_test x p str of
                       None \<Rightarrow> Inl (SyntaxError, es2)
                     | Some matches \<Rightarrow>
                         Inr (enum_check c prefix s val
                           (if \<not> matches
                            then error prefix (''String does not match required pattern '' @ p
                                   @ '' with value: '' @ x_smart x val) es2
                            else es2)))
                | _ \<Rightarrow> Inr (enum_check c prefix s val es2))
        | _ \<Rightarrow> Inr (error prefix (''Expected a string. Received: '' @ x_smart x val) es))"

text \<open>\<open>validate.binary\<close> and \<open>validate.byte\<close>\<close>

definition validate_binary :: "ctx \<Rightarrow> string \<Rightarrow> nat \<Rightarrow> schema \<Rightarrow> jsval \<Rightarrow> errs \<Rightarrow> res" where
  "validate_binary c prefix depth s val es =
     (let x = c_ext c in
      if \<not> o_binary (c_options c) then Inr es
      else case val of
          VStr str \<Rightarrow>
            validate_string c prefix depth s val
              (if \<not> x_is_binary x str
               then error prefix (''Expected a binary string. Received: '' @ x_smart x val) es
               else es)
        | _ \<Rightarrow> Inr (error prefix (''Expected a string. Received: '' @ x_smart x val) es))"

definition validate_byte :: "ctx \<Rightarrow> string \<Rightarrow> nat \<Rightarrow> schema \<Rightarrow> jsval \<Rightarrow> errs \<Rightarrow> res" where
  "validate_byte c prefix depth s val es =
     (let x = c_ext c in
      if \<not> o_byte (c_options c) then Inr es
      else case val of
          VStr str \<Rightarrow>
            validate_string c prefix depth s val
              (if \<not> x_is_byte x str
               then error prefix (''Expected a base64 string. Received: '' @ x_smart x val) es
               else es)
        | _ \<Rightarrow> Inr (error prefix (''Expected a string. Received: '' @ x_smart x val) es))"

text \<open>\<open>validate.boolean\<close>\<close>

definition validate_boolean :: "ctx \<Rightarrow> string \<Rightarrow> nat \<Rightarrow> schema \<Rightarrow> jsval \<Rightarrow> errs \<Rightarrow> res" where
  "validate_boolean c prefix depth s val es =
     (if \<not> o_boolean (c_options c) then Inr es
      else case val of
          VBool b \<Rightarrow> Inr (enum_check c prefix s val es)
        | _ \<Rightarrow> Inr (error prefix (''Expected a boolean. Received: '' @ x_smart (c_ext c) val) es))"

text \<open>
  \<open>date(descriptor, v, prefix, schema, value)\<close>: \<open>rx.dateTime.exec\<close> gives the six numeric
  groups, or \<open>null\<close>, whose indexing throws; the fields of \<open>new Date(value)\<close> and the
  instants compared by \<open>maxMin\<close> come from the host.
\<close>

definition date :: "string \<Rightarrow> ctx \<Rightarrow> string \<Rightarrow> schema \<Rightarrow> string \<Rightarrow> errs \<Rightarrow> res" where
  "date descriptor c prefix s str es =
     (let x = c_ext c; opts = c_options c;
          suffix = (if descriptor = ''date-time'' then [] else ''T00:00:00.000Z'')
      in case x_rx_dateTime x (str @ suffix) of
           None \<Rightarrow> Inl (TypeError, es)
         | Some (year, month1, day, hour, minute, second) \<Rightarrow>
             (case x_date_utc x str of (uy, um, ud) \<Rightarrow>
               (let month = (case month1 of Fin q \<Rightarrow> Fin (q - 1) | other \<Rightarrow> other);
                    es1 = (if o_timeExists opts \<and>
                              (num_ge hour (Fin 24) \<or> num_ge minute (Fin 60) \<or> num_ge second (Fin 60))
                           then error prefix (''The specified time is invalid: '' @ drop 11 str) es
                           else es);
                    es2 = (if o_dateExists opts \<and>
                              (\<not> num_eq year uy \<or> \<not> num_eq month um \<or> \<not> num_eq day ud)
                           then error prefix (''The specified date does not exist: '' @ take 10 str) es1
                           else es1)
                in Inr (maxMin prefix descriptor
                      (o_maximum opts) (map_option (x_toString x) (s_maximum s))
                      (o_minimum opts) (map_option (x_toString x) (s_minimum s))
                      False (s_exclusiveMaximum s) (s_exclusiveMinimum s)
                      (x_date_smart x str) (x_date_value x (VStr str))
                      (x_date_value x (or_undefined (s_maximum s)))
                      (x_date_value x (or_undefined (s_minimum s)))
                      es2))))"

text \<open>\<open>validate.date\<close> and \<open>validate.dateTime\<close>\<close>

definition validate_date :: "ctx \<Rightarrow> string \<Rightarrow> nat \<Rightarrow> schema \<Rightarrow> jsval \<Rightarrow> errs \<Rightarrow> res" where
  "validate_date c prefix depth s val es =
     (let x = c_ext c;
          expected = ''Expected a full-date string as described by RFC3339 at https://xml2rfc.tools.ietf.org/public/rfc/html/rfc3339.html#anchor14. Received: ''
      in if \<not> o_date (c_options c) then Inr es
      else case val of
          VStr str \<Rightarrow>
            if \<not> x_is_date x str then Inr (error prefix (expected @ x_smart x val) es)
            else andThen (date ''date'' c prefix s str es) (validate_string c prefix depth s val)
        | _ \<Rightarrow> Inr (error prefix (expected @ x_smart x val) es))"

definition validate_dateTime :: "ctx \<Rightarrow> string \<Rightarrow> nat \<Rightarrow> schema \<Rightarrow> jsval \<Rightarrow> errs \<Rightarrow> res" where
  "validate_dateTime c prefix depth s val es =
     (let x = c_ext c;
          expected = ''Expected a date-time as described by RFC3339 at https://xml2rfc.tools.ietf.org/public/rfc/html/rfc3339.html#anchor14. Received: ''
      in if \<not> o_dateTime (c_options c) then Inr es
      else case val of
          VStr str \<Rightarrow>
            if \<not> x_is_dateTime x str then Inr (error prefix (expected @ x_smart x val) es)
            else if x_is_dateTime x str
            then andThen (date ''date-time'' c prefix s str es) (validate_string c prefix depth s val)
            else Inr es
        | _ \<Rightarrow> Inr (error prefix (expected @ x_smart x val) es))"

text \<open>\<open>validate.integer\<close> and \<open>validate.number\<close>; \<open>Math.round\<close> leaves \<open>NaN\<close> and the
  infinities as they are.\<close>

fun num_round :: "jsnum \<Rightarrow> jsnum" where
  "num_round (Fin q) = Fin (of_int \<lfloor>q + 1 / 2\<rfloor>)"
| "num_round n = n"

definition validate_integer :: "ctx \<Rightarrow> string \<Rightarrow> nat \<Rightarrow> schema \<Rightarrow> jsval \<Rightarrow> errs \<Rightarrow> res" where
  "validate_integer c prefix depth s val es =
     (if \<not> o_integer (c_options c) then Inr es
      else case val of
          VNum n \<Rightarrow>
            if n = NaN \<or> num_round n \<noteq> n
            then Inr (error prefix (''Expected an integer. Received: '' @ x_smart (c_ext c) val) es)
            else Inr (numerical ''integer'' c prefix s n es)
        | _ \<Rightarrow> Inr (error prefix (''Expected an integer. Received: '' @ x_smart (c_ext c) val) es))"

definition validate_number :: "ctx \<Rightarrow> string \<Rightarrow> nat \<Rightarrow> schema \<Rightarrow> jsval \<Rightarrow> errs \<Rightarrow> res" where
  "validate_number c prefix depth s val es =
     (if \<not> o_number (c_options c) then Inr es
      else case val of
          VNum n \<Rightarrow>
            if n = NaN
            then Inr (error prefix (''Expected a number. Received: '' @ x_smart (c_ext c) val) es)
            else Inr (numerical ''number'' c prefix s n es)
        | _ \<Rightarrow> Inr (error prefix (''Expected a number. Received: '' @ x_smart (c_ext c) val) es))"

section \<open>Arrays\<close>

text \<open>
  The recursive call \<open>validate(v, prefix, depth, schema, value)\<close> is a parameter of the
  validators that descend; \<open>validate\<close> below ties the knot.
\<close>

type_synonym validator = "string \<Rightarrow> nat \<Rightarrow> addr \<Rightarrow> jsval \<Rightarrow> errs \<Rightarrow> res"

text \<open>The \<open>uniqueItems\<close> scan, with the list \<open>singles\<close> of the values seen so far.\<close>

fun unique_scan :: "ctx \<Rightarrow> string \<Rightarrow> jsval list \<Rightarrow> nat \<Rightarrow> jsval list \<Rightarrow> errs \<Rightarrow> errs" where
  "unique_scan c prefix [] index singles es = es"
| "unique_scan c prefix (item # rest) index singles es =
     (if list_ex (x_same (c_ext c) item) singles
      then unique_scan c prefix rest (Suc index) singles
             (error prefix (''Array values must be unique. Value is not unique at index ''
                @ show_nat index @ '': '' @ x_toString (c_ext c) item) es)
      else unique_scan c prefix rest (Suc index) (singles @ [item]) es)"

text \<open>\<open>value.forEach((val, index) => validate(v, prefix + '/' + index, depth1, schema.items, val))\<close>\<close>

fun items_loop :: "validator \<Rightarrow> string \<Rightarrow> nat \<Rightarrow> addr \<Rightarrow> jsval list \<Rightarrow> nat \<Rightarrow> errs \<Rightarrow> res" where
  "items_loop rec prefix depth1 items [] index es = Inr es"
| "items_loop rec prefix depth1 items (val # rest) index es =
     andThen (rec (prefix @ ''/'' @ show_nat index) depth1 items val es)
       (items_loop rec prefix depth1 items rest (Suc index))"

text \<open>\<open>validate.array\<close>\<close>

definition validate_array :: "validator \<Rightarrow> ctx \<Rightarrow> string \<Rightarrow> nat \<Rightarrow> schema \<Rightarrow> jsval \<Rightarrow> errs \<Rightarrow> res" where
  "validate_array rec c prefix depth s val es =
     (let x = c_ext c; opts = c_options c in
      if \<not> o_array opts then Inr es
      else case val of
          VArr xs \<Rightarrow>
            (let len = length xs;
                 es1 = (case (o_maxItems opts, s_maxItems s) of
                          (True, Some m) \<Rightarrow>
                            if m < len
                            then error prefix (''Array length above maximum length of '' @ show_nat m
                                   @ '' with '' @ show_nat len @ '' items.'') es
                            else es
                        | _ \<Rightarrow> es);
                 es2 = (case (o_minItems opts, s_minItems s) of
                          (True, Some m) \<Rightarrow>
                            if m > len
                            then error prefix (''Array length below minimum length of '' @ show_nat m
                                   @ '' with '' @ show_nat len @ '' items.'') es1
                            else es1
                        | _ \<Rightarrow> es1);
                 es3 = (if o_uniqueItems opts \<and> s_uniqueItems s
                        then unique_scan c prefix xs 0 [] es2 else es2)
             in andThen
                  (case (o_items opts, s_items s, o_depth opts > depth) of
                     (True, Some items, True) \<Rightarrow> items_loop rec prefix (depth + 1) items xs 0 es3
                   | _ \<Rightarrow> Inr es3)
                  (\<lambda>es4. Inr (enum_check c prefix s val es4)))
        | _ \<Rightarrow> Inr (error prefix (''Expected an array. Received: '' @ x_smart x val) es))"

section \<open>Discriminators and \<open>allOf\<close> chains\<close>

text \<open>
  \<open>discriminate(v, map, allOf, prefix, schema, value)\<close> works on three pieces of state:
  the identity map of the nodes seen (here the list of their addresses), the array
  \<open>allOf\<close> of effective schemas, and \<open>v.errors\<close>. Its callers ignore what the nested calls
  return and read the array, so the model returns the state. The first argument of
  \<open>discriminate\<close> bounds the nesting of calls; running out of it is the overflow of the
  call stack.
\<close>

type_synonym dstate = "addr list \<times> addr list \<times> errs"
type_synonym dres = "(exn \<times> errs) + dstate"

fun discriminate_each :: "(addr \<Rightarrow> dstate \<Rightarrow> dres) \<Rightarrow> addr list \<Rightarrow> dstate \<Rightarrow> dres" where
  "discriminate_each rec [] st = Inr st"
| "discriminate_each rec (a # rest) st =
     (case rec a st of Inl e \<Rightarrow> Inl e | Inr st1 \<Rightarrow> discriminate_each rec rest st1)"

definition discriminate_body ::
  "(addr \<Rightarrow> dstate \<Rightarrow> dres) \<Rightarrow> ctx \<Rightarrow> string \<Rightarrow> jsval \<Rightarrow> addr \<Rightarrow> dstate \<Rightarrow> dres" where
  "discriminate_body rec c prefix val a st =
     (case st of (visited, allOf, es) \<Rightarrow>
        if a \<in> set visited then Inr (visited, allOf, es)
        else (case lookup (c_heap c) a of
            None \<Rightarrow> Inl (TypeError, es)
          | Some s \<Rightarrow>
              if o_allOf (c_options c) \<and> s_allOf s \<noteq> None
              then discriminate_each rec (the (s_allOf s)) (a # visited, allOf, es)
              else if o_discriminator (c_options c) \<and> s_discriminator s \<noteq> None
              then (case x_getDiscriminatorSchema (c_ext c) (c_heap c) a val of
                      Some d \<Rightarrow> rec d (a # visited, allOf @ [a], es)
                    | None \<Rightarrow>
                        Inr (a # visited, allOf @ [a],
                             error prefix (''Undefined discriminator schema: ''
                               @ x_toString (c_ext c) (x_getDiscriminatorKey (c_ext c) (c_heap c) a val)) es))
              else Inr (a # visited, allOf @ [a], es)))"

primrec discriminate :: "nat \<Rightarrow> ctx \<Rightarrow> string \<Rightarrow> jsval \<Rightarrow> addr \<Rightarrow> dstate \<Rightarrow> dres" where
  "discriminate 0 c prefix val a st = Inl (RangeError, snd (snd st))"
| "discriminate (Suc n) c prefix val a st =
     discriminate_body (discriminate n c prefix val) c prefix val a st"

section \<open>Objects\<close>

text \<open>The own enumerable keys of a non-null object with their values; an array is an
  object whose keys are its indices.\<close>

fun object_entries :: "jsval \<Rightarrow> (string \<times> jsval) list option" where
  "object_entries (VObj kvs) = Some kvs"
| "object_entries (VArr xs) = Some (zip (map show_nat [0..<length xs]) xs)"
| "object_entries _ = None"

type_synonym keys_res = "(exn \<times> errs) + (string list \<times> errs)"

text \<open>\<open>keys.forEach(key => ...)\<close> of \<open>validate.object\<close>, with the array \<open>required\<close> it
  splices.\<close>

fun keys_loop ::
  "validator \<Rightarrow> ctx \<Rightarrow> string \<Rightarrow> nat \<Rightarrow> schema \<Rightarrow> (string \<times> jsval) list \<Rightarrow> string list \<Rightarrow> errs \<Rightarrow> keys_res" where
  "keys_loop rec c prefix depth s [] required es = Inr (required, es)"
| "keys_loop rec c prefix depth s ((key, pv) # rest) required es =
     (let opts = c_options c;
          required1 = remove1 key required;
          r = (if o_depth opts > depth then
                 (case map_of (case s_properties s of Some ps \<Rightarrow> ps | None \<Rightarrow> []) key of
                    Some sub \<Rightarrow>
                      if o_properties opts then rec (prefix @ ''/'' @ key) (depth + 1) sub pv es
                      else Inr es
                  | None \<Rightarrow>
                      if o_additionalProperties opts then
                        (case s_additionalProperties s of
                           Some (AddlBool False) \<Rightarrow>
                             Inr (error (prefix @ ''/'' @ key) ''Property not allowed'' es)
                         | Some (AddlSchema sub) \<Rightarrow> rec (prefix @ ''/'' @ key) (depth + 1) sub pv es
                         | _ \<Rightarrow> Inr es)
                      else Inr es)
               else Inr es)
      in case r of Inl e \<Rightarrow> Inl e
         | Inr es1 \<Rightarrow> keys_loop rec c prefix depth s rest required1 es1)"

text \<open>The body run for each effective schema.\<close>

definition object_schema ::
  "validator \<Rightarrow> ctx \<Rightarrow> string \<Rightarrow> nat \<Rightarrow> jsval \<Rightarrow> (string \<times> jsval) list \<Rightarrow> schema \<Rightarrow> errs \<Rightarrow> res" where
  "object_schema rec c prefix depth val entries s es =
     (let x = c_ext c; opts = c_options c;
          required = (case (o_required opts, s_required s) of (True, Some r) \<Rightarrow> r | _ \<Rightarrow> [])
      in case keys_loop rec c prefix depth s entries required es of
           Inl e \<Rightarrow> Inl e
         | Inr (required1, es1) \<Rightarrow>
             (let es2 = (if o_required opts \<and> required1 \<noteq> []
                         then error prefix (''One or more required properties missing: ''
                                @ join '', '' required1) es1
                         else es1);
                  n = length entries;
                  es3 = maxMin prefix ''object property count''
                          (o_maxProperties opts) (map_option show_nat (s_maxProperties s))
                          (o_minProperties opts) (map_option show_nat (s_minProperties s))
                          False (s_exclusiveMaximum s) (s_exclusiveMinimum s)
                          (x_smart x (VNum (nat_num n))) (nat_num n)
                          (opt_nat_num (s_maxProperties s)) (opt_nat_num (s_minProperties s))
                          es2
              in Inr (enum_check c prefix s val es3)))"

fun effective_loop ::
  "validator \<Rightarrow> ctx \<Rightarrow> string \<Rightarrow> nat \<Rightarrow> jsval \<Rightarrow> (string \<times> jsval) list \<Rightarrow> addr list \<Rightarrow> errs \<Rightarrow> res" where
  "effective_loop rec c prefix depth val entries [] es = Inr es"
| "effective_loop rec c prefix depth val entries (a # rest) es =
     (case lookup (c_heap c) a of
        None \<Rightarrow> Inl (TypeError, es)
      | Some s \<Rightarrow>
          andThen (object_schema rec c prefix depth val entries s es)
            (effective_loop rec c prefix depth val entries rest))"

text \<open>
  \<open>validate.object\<close>. A fresh map and a fresh array go to \<open>discriminate\<close>, whose call
  nesting never exceeds the number of nodes of the store (each nested call has marked one
  more node), so that bound is given to it.
\<close>

definition validate_object :: "validator \<Rightarrow> ctx \<Rightarrow> string \<Rightarrow> nat \<Rightarrow> addr \<Rightarrow> jsval \<Rightarrow> errs \<Rightarrow> res" where
  "validate_object rec c prefix depth a val es =
     (if \<not> o_object (c_options c) then Inr es
      else case object_entries val of
          None \<Rightarrow> Inr (error prefix (''Expected a non-null object. Received: '' @ x_smart (c_ext c) val) es)
        | Some entries \<Rightarrow>
            (case discriminate (Suc (length (c_heap c))) c prefix val a ([], [], es) of
               Inl e \<Rightarrow> Inl e
             | Inr (visited, effective, es1) \<Rightarrow>
                 effective_loop rec c prefix depth val entries effective es1))"

section \<open>Combinators and dispatch\<close>

text \<open>
  \<open>anyOf(v, prefix, depth, schemas, value)\<close>: each branch is validated with \<open>v.errors\<close>
  replaced by a fresh array; the saved array is put back after the loop. The result holds
  the arrays \<open>errors\<close> and \<open>messages\<close> and the count \<open>valid\<close>. A branch that throws leaves
  the loop before the saved array is put back.
\<close>

type_synonym anyres = "string list \<times> string list \<times> nat"

fun anyOf_loop ::
  "validator \<Rightarrow> string \<Rightarrow> nat \<Rightarrow> jsval \<Rightarrow> addr list \<Rightarrow> nat \<Rightarrow> anyres \<Rightarrow> (exn \<times> errs) + anyres" where
  "anyOf_loop rec prefix depth val [] i r = Inr r"
| "anyOf_loop rec prefix depth val (a # rest) i r =
     (case r of (errors, messages, valid) \<Rightarrow>
        (case rec (prefix @ ''  '') depth a val [] of
           Inl e \<Rightarrow> Inl e
         | Inr branch \<Rightarrow>
             if branch = []
             then anyOf_loop rec prefix depth val rest (Suc i)
                    (errors, messages @ [prefix @ ''Schema #'' @ show_nat (i + 1) @ '': Valid''], valid + 1)
             else (let logStr = prefix @ ''Schema #'' @ show_nat (i + 1) @ '': Invalid'' @ newline
                                  @ join newline (map error_text branch)
                   in anyOf_loop rec prefix depth val rest (Suc i)
                        (errors @ [logStr], messages @ [logStr], valid))))"

definition anyOf ::
  "validator \<Rightarrow> string \<Rightarrow> nat \<Rightarrow> addr list \<Rightarrow> jsval \<Rightarrow> errs \<Rightarrow> (exn \<times> errs) + (anyres \<times> errs)" where
  "anyOf rec prefix depth schemas val es =
     (case anyOf_loop rec prefix depth val schemas 0 ([], [], 0) of
        Inl e \<Rightarrow> Inl e
      | Inr r \<Rightarrow> Inr (r, es))"

text \<open>\<open>nestedPrefix(prefix)\<close>: two spaces more than the indentation of the prefix.\<close>

definition nestedPrefix :: "string \<Rightarrow> string" where
  "nestedPrefix prefix = replicate (length (takeWhile (\<lambda>ch. ch = CHR '' '') prefix) + 2) (CHR '' '')"

text \<open>\<open>not(v, prefix, depth, schema, value)\<close>\<close>

definition not_check :: "validator \<Rightarrow> string \<Rightarrow> nat \<Rightarrow> addr \<Rightarrow> jsval \<Rightarrow> errs \<Rightarrow> res" where
  "not_check rec prefix depth a val es =
     (case rec prefix depth a val [] of
        Inl e \<Rightarrow> Inl e
      | Inr branch \<Rightarrow>
          Inr (if branch = [] then error prefix ''Should not pass schema.'' es else es))"

text \<open>\<open>schema.allOf.forEach(schema => validate(v, prefix, depth, schema, value))\<close>\<close>

fun allOf_loop :: "validator \<Rightarrow> string \<Rightarrow> nat \<Rightarrow> jsval \<Rightarrow> addr list \<Rightarrow> errs \<Rightarrow> res" where
  "allOf_loop rec prefix depth val [] es = Inr es"
| "allOf_loop rec prefix depth val (a # rest) es =
     andThen (rec prefix depth a val es) (allOf_loop rec prefix depth val rest)"

text \<open>
  The body of \<open>validate(v, prefix, depth, schema, value)\<close>. In the \<open>oneOf\<close> branch the
  source writes \<open>v.error.push(prefix, ...)\<close>, where every other branch writes
  \<open>v.error(prefix, ...)\<close>: \<open>v.error\<close> is the recording function, a function has no method
  \<open>push\<close>, and calling \<open>undefined\<close> throws a TypeError.
\<close>

definition validate_body :: "validator \<Rightarrow> ctx \<Rightarrow> string \<Rightarrow> nat \<Rightarrow> addr \<Rightarrow> jsval \<Rightarrow> errs \<Rightarrow> res" where
  "validate_body rec c prefix depth a val es =
     (let opts = c_options c in
      case lookup (c_heap c) a of
        None \<Rightarrow> Inl (TypeError, es)
      | Some s \<Rightarrow>
          if o_anyOf opts \<and> s_anyOf s \<noteq> None then
            (case anyOf rec (nestedPrefix prefix) depth (the (s_anyOf s)) val es of
               Inl e \<Rightarrow> Inl e
             | Inr ((errors, messages, valid), es1) \<Rightarrow>
                 if valid = 0
                 then Inr (error prefix (''Did not match any of the schemas:'' @ newline
                             @ join newline errors) es1)
                 else Inr es1)
          else if o_oneOf opts \<and> s_oneOf s \<noteq> None then
            (case anyOf rec (nestedPrefix prefix) depth (the (s_oneOf s)) val es of
               Inl e \<Rightarrow> Inl e
             | Inr ((errors, messages, valid), es1) \<Rightarrow>
                 if valid \<noteq> 1 then Inl (TypeError, es1) else Inr es1)
          else if o_allOf opts \<and> s_allOf s \<noteq> None then
            allOf_loop rec prefix depth val (the (s_allOf s)) es
          else if o_not opts \<and> s_not s \<noteq> None then
            not_check rec prefix depth (the (s_not s)) val es
          else
            (let ty = x_schemaType (c_ext c) s in
             if ty = Some ''array'' then validate_array rec c prefix depth s val es
             else if ty = Some ''boolean'' then validate_boolean c prefix depth s val es
             else if ty = Some ''integer'' then validate_integer c prefix depth s val es
             else if ty = Some ''number'' then validate_number c prefix depth s val es
             else if ty = Some ''object'' then validate_object rec c prefix depth a val es
             else if ty = Some ''string'' then
               (if s_format s = Some ''binary'' then validate_binary c prefix depth s val es
                else if s_format s = Some ''byte'' then validate_byte c prefix depth s val es
                else if s_format s = Some ''date'' then validate_date c prefix depth s val es
                else if s_format s = Some ''date-time'' then validate_dateTime c prefix depth s val es
                else if s_format s = Some [] \<or> s_format s = None
                then validate_string c prefix depth s val es
                else Inr es)
             else Inr es))"

text \<open>
  \<open>validate\<close> itself: the first argument bounds the nesting of calls (nothing in the
  source bounds the recursion through \<open>allOf\<close>, \<open>anyOf\<close>, \<open>oneOf\<close> and \<open>not\<close>); running
  out of it is the overflow of the call stack, a RangeError.
\<close>

primrec validate :: "nat \<Rightarrow> ctx \<Rightarrow> string \<Rightarrow> nat \<Rightarrow> addr \<Rightarrow> jsval \<Rightarrow> errs \<Rightarrow> res" where
  "validate 0 c prefix depth a val es = Inl (RangeError, es)"
| "validate (Suc n) c prefix depth a val es =
     validate_body (validate n c) c prefix depth a val es"

section \<open>The template and defaults materializer\<close>

text \<open>
  The options of \<open>applyTemplate\<close>, with the injector that \<open>options.injector\<close> wraps
  (\<open>options.replacement\<close>, a function of the template text and \<open>params\<close>). The modules
  \<open>./schema-type\<close> and \<open>./convert-to\<close> and the conversion of a value to a property key are
  not among the sources at hand and are parameters too; \<open>./copy\<close> is the identity on
  values, which are immutable here.
\<close>

record tenv =
  t_useDefaults :: bool
  t_useTemplates :: bool
  t_useVariables :: bool
  t_autoFormat :: bool
  t_defaultsUseParams :: bool
  t_ignoreMissingRequired :: bool
  t_injector :: "string \<Rightarrow> (string \<times> jsval) list \<Rightarrow> jsval"
  t_schemaType :: "schema \<Rightarrow> string option"
  t_convertTo :: "string \<Rightarrow> jsval \<Rightarrow> jsval"
  t_toKey :: "jsval \<Rightarrow> string"

type_synonym tres = "exn + (bool \<times> jsval)"

fun js_truthy :: "jsval \<Rightarrow> bool" where
  "js_truthy VUndefined = False"
| "js_truthy VNull = False"
| "js_truthy (VBool b) = b"
| "js_truthy (VNum n) = num_truthy n"
| "js_truthy (VStr str) = (str \<noteq> [])"
| "js_truthy _ = True"

text \<open>The own enumerable properties that \<open>Object.assign\<close> and \<open>Object.keys\<close> see.\<close>

fun own_entries :: "jsval \<Rightarrow> (string \<times> jsval) list" where
  "own_entries (VObj kvs) = kvs"
| "own_entries (VArr xs) = zip (map show_nat [0..<length xs]) xs"
| "own_entries (VStr str) = zip (map show_nat [0..<length str]) (map (\<lambda>ch. VStr [ch]) str)"
| "own_entries _ = []"

text \<open>\<open>value.hasOwnProperty(p)\<close>: a TypeError on \<open>undefined\<close> and \<open>null\<close>; arrays and
  strings own \<open>length\<close> besides their indices.\<close>

fun has_own :: "jsval \<Rightarrow> string \<Rightarrow> bool option" where
  "has_own VUndefined p = None"
| "has_own VNull p = None"
| "has_own (VArr xs) p = Some (p = ''length'' \<or> p \<in> set (map fst (own_entries (VArr xs))))"
| "has_own (VStr str) p = Some (p = ''length'' \<or> p \<in> set (map fst (own_entries (VStr str))))"
| "has_own v p = Some (p \<in> set (map fst (own_entries v)))"

fun get_own :: "jsval \<Rightarrow> string \<Rightarrow> jsval" where
  "get_own (VArr xs) p =
     (if p = ''length'' then VNum (nat_num (length xs)) else or_undefined (map_of (own_entries (VArr xs)) p))"
| "get_own (VStr str) p =
     (if p = ''length'' then VNum (nat_num (length str)) else or_undefined (map_of (own_entries (VStr str)) p))"
| "get_own v p = or_undefined (map_of (own_entries v) p)"

text \<open>\<open>result[property] = value\<close> on an object: an existing key keeps its place.\<close>

fun upd_entry :: "string \<Rightarrow> jsval \<Rightarrow> (string \<times> jsval) list \<Rightarrow> (string \<times> jsval) list" where
  "upd_entry k v [] = [(k, v)]"
| "upd_entry k v ((k', v') # rest) = (if k = k' then (k, v) # rest else (k', v') # upd_entry k v rest)"

text \<open>\<open>Object.assign(target, source)\<close>\<close>

definition assign :: "(string \<times> jsval) list \<Rightarrow> jsval \<Rightarrow> (string \<times> jsval) list" where
  "assign target source = foldl (\<lambda>t kv. upd_entry (fst kv) (snd kv) t) target (own_entries source)"

text \<open>The \<open>forEach\<close> over \<open>schema.allOf\<close>, collecting the array \<open>applications\<close>.\<close>

fun tpl_allOf_loop :: "(addr \<Rightarrow> tres) \<Rightarrow> addr list \<Rightarrow> jsval list \<Rightarrow> exn + jsval list" where
  "tpl_allOf_loop rec [] applications = Inr applications"
| "tpl_allOf_loop rec (a # rest) applications =
     (case rec a of
        Inl e \<Rightarrow> Inl e
      | Inr (applied, v) \<Rightarrow>
          tpl_allOf_loop rec rest (if applied then applications @ [v] else applications))"

text \<open>\<open>value.map(item => ...)\<close> with the flag \<open>setDefault\<close>.\<close>

fun tpl_items_loop :: "(jsval \<Rightarrow> tres) \<Rightarrow> jsval list \<Rightarrow> exn + (bool \<times> jsval list)" where
  "tpl_items_loop rec [] = Inr (False, [])"
| "tpl_items_loop rec (item # rest) =
     (case rec item of
        Inl e \<Rightarrow> Inl e
      | Inr (applied, v) \<Rightarrow>
          (case tpl_items_loop rec rest of
             Inl e \<Rightarrow> Inl e
           | Inr (setDefault, vs) \<Rightarrow> Inr (applied \<or> setDefault, v # vs)))"

text \<open>The \<open>forEach\<close> over the keys of \<open>properties\<close>, on the object \<open>result\<close> and the flag
  \<open>setDefault\<close>.\<close>

fun tpl_props_loop ::
  "tenv \<Rightarrow> heap \<Rightarrow> (addr \<Rightarrow> jsval option \<Rightarrow> tres) \<Rightarrow> (string \<times> addr) list \<Rightarrow>
   (string \<times> jsval) list \<times> bool \<Rightarrow> exn + ((string \<times> jsval) list \<times> bool)" where
  "tpl_props_loop t h rec [] st = Inr st"
| "tpl_props_loop t h rec ((property, sub) # rest) st =
     (case st of (result, setDefault) \<Rightarrow>
        (case lookup h sub of
           None \<Rightarrow> Inl TypeError
         | Some subSchema \<Rightarrow>
             if (t_useTemplates t \<and> s_x_template subSchema \<noteq> None) \<or>
                (t_useVariables t \<and> s_x_variable subSchema \<noteq> None) \<or>
                (t_useDefaults t \<and> s_default subSchema \<noteq> None) \<or>
                t_schemaType t subSchema = Some ''object''
             then (case rec sub (map_of result property) of
                     Inl e \<Rightarrow> Inl e
                   | Inr (applied, v) \<Rightarrow>
                       tpl_props_loop t h rec rest
                         (if applied then (upd_entry property v result, True) else (result, setDefault)))
             else tpl_props_loop t h rec rest (result, setDefault)))"

text \<open>The \<open>forEach\<close> over the keys of \<open>result\<close> for \<open>additionalProperties\<close>.\<close>

fun tpl_addl_loop ::
  "(jsval option \<Rightarrow> tres) \<Rightarrow> (string \<times> addr) list \<Rightarrow> string list \<Rightarrow>
   (string \<times> jsval) list \<times> bool \<Rightarrow> exn + ((string \<times> jsval) list \<times> bool)" where
  "tpl_addl_loop rec properties [] st = Inr st"
| "tpl_addl_loop rec properties (property # rest) st =
     (case st of (result, setDefault) \<Rightarrow>
        if map_of properties property = None
        then (case rec (Some (or_undefined (map_of result property))) of
                Inl e \<Rightarrow> Inl e
              | Inr (applied, v) \<Rightarrow>
                  tpl_addl_loop rec properties rest
                    (if applied then (upd_entry property v result, True) else (result, setDefault)))
        else tpl_addl_loop rec properties rest (result, setDefault))"

text \<open>
  The rewriting of a schema with a discriminator into an \<open>allOf\<close>. It reads
  \<open>value.hasOwnProperty\<close> whether or not a value was given, and \<open>second.allOf\<close> whether or
  not the definitions hold the subtype. The two new schema objects are added at the end
  of the store; the result is the store and the address of the new \<open>allOf\<close> schema.
\<close>

definition rewrite_discriminator ::
  "tenv \<Rightarrow> heap \<Rightarrow> (string \<times> addr) list \<Rightarrow> addr \<Rightarrow> schema \<Rightarrow> jsval option \<Rightarrow> exn + (heap \<times> addr)" where
  "rewrite_discriminator t h definitions a s vopt =
     (case (s_allOf s, s_discriminator s) of
        (None, Some p) \<Rightarrow>
          if p = [] then Inr (h, a)
          else (case has_own (or_undefined vopt) p of
                  None \<Rightarrow> Inl TypeError
                | Some False \<Rightarrow> Inr (h, a)
                | Some True \<Rightarrow>
                    (case map_of definitions (case get_own (or_undefined vopt) p of
                                               VStr name \<Rightarrow> name | other \<Rightarrow> t_toKey t other) of
                       None \<Rightarrow> Inl TypeError
                     | Some sa \<Rightarrow>
                         (case lookup h sa of
                            None \<Rightarrow> Inl TypeError
                          | Some second \<Rightarrow>
                              (let allOf = filter (\<lambda>m. m \<noteq> a)
                                             (case s_allOf second of Some ms \<Rightarrow> ms | None \<Rightarrow> [sa]);
                                   schemaCopy = s\<lparr>s_discriminator := None\<rparr>;
                                   merged = empty_schema\<lparr>s_type := Some ''object'',
                                              s_allOf := Some (allOf @ [length h])\<rparr>
                               in Inr (h @ [schemaCopy, merged], Suc (length h))))))
      | _ \<Rightarrow> Inr (h, a))"

text \<open>The conversions of the variable branch under \<open>options.autoFormat\<close>.\<close>

definition auto_format :: "tenv \<Rightarrow> string option \<Rightarrow> schema \<Rightarrow> jsval \<Rightarrow> jsval" where
  "auto_format t ty s v =
     (if ty = Some ''boolean'' \<or> ty = Some ''integer'' \<or> ty = Some ''number''
      then t_convertTo t (the ty) v
      else if ty = Some ''string'' then
        (if s_format s = Some ''binary'' \<or> s_format s = Some ''byte'' \<or> s_format s = Some ''date''
         then t_convertTo t (the (s_format s)) v
         else if s_format s = Some ''date-time'' then t_convertTo t ''dateTime'' v
         else t_convertTo t ''string'' v)
      else v)"

fun is_object_default :: "jsval \<Rightarrow> bool" where
  "is_object_default VNull = True"
| "is_object_default (VArr xs) = True"
| "is_object_default (VObj kvs) = True"
| "is_object_default _ = False"

text \<open>
  The body of \<open>applyTemplate(schema, definitions, params, options, value)\<close>; the value is
  \<open>None\<close> when the call has fewer than five arguments. The recursive call is the
  parameter \<open>rec\<close>, which takes the store, the schema and the value.
\<close>

definition applyTemplate_body ::
  "(heap \<Rightarrow> addr \<Rightarrow> jsval option \<Rightarrow> tres) \<Rightarrow> tenv \<Rightarrow> heap \<Rightarrow> (string \<times> addr) list \<Rightarrow>
   (string \<times> jsval) list \<Rightarrow> addr \<Rightarrow> jsval option \<Rightarrow> tres" where
  "applyTemplate_body rec t h0 definitions params a0 vopt =
     (let valueNotProvided = (vopt = None); val = or_undefined vopt in
      case lookup h0 a0 of
        None \<Rightarrow> Inl TypeError
      | Some s0 \<Rightarrow>
     (case rewrite_discriminator t h0 definitions a0 s0 vopt of
        Inl e \<Rightarrow> Inl e
      | Inr (h, a) \<Rightarrow>
     (case lookup h a of
        None \<Rightarrow> Inl TypeError
      | Some s \<Rightarrow>
     (let ty = t_schemaType t s in
      case s_allOf s of
        Some members \<Rightarrow>
          (case tpl_allOf_loop (\<lambda>m. rec h m (Some (if valueNotProvided then VObj [] else val)))
                  members [VObj []] of
             Inl e \<Rightarrow> Inl e
           | Inr applications \<Rightarrow>
               Inr (length applications > 2, VObj (foldl assign [] applications)))
      | None \<Rightarrow>
          if valueNotProvided \<and> t_useVariables t \<and>
             (case s_x_variable s of
                None \<Rightarrow> False
              | Some var \<Rightarrow> (case map_of params var of None \<Rightarrow> False | Some pv \<Rightarrow> pv \<noteq> VUndefined))
          then (let pv = or_undefined (map_of params (the (s_x_variable s)))
                in Inr (True, if t_autoFormat t then auto_format t ty s pv else pv))
          else if valueNotProvided \<and> t_useTemplates t \<and>
             (case s_x_template s of None \<Rightarrow> False | Some tpl \<Rightarrow> t_injector t tpl params \<noteq> VStr tpl)
          then Inr (True, t_injector t (the (s_x_template s)) params)
          else if valueNotProvided \<and> t_useDefaults t \<and> s_default s \<noteq> None
          then (let d = the (s_default s) in
                if t_defaultsUseParams t then
                  (if js_truthy val \<and> is_object_default d then rec h a (Some d)
                   else case d of
                       VStr str \<Rightarrow> Inr (True, t_injector t str params)
                     | _ \<Rightarrow> Inr (True, d))
                else Inr (True, d))
          else if ty = Some ''array'' then
            (case (val, s_items s) of
               (VArr xs, Some items) \<Rightarrow>
                 (case tpl_items_loop (\<lambda>item. rec h items (Some item)) xs of
                    Inl e \<Rightarrow> Inl e
                  | Inr (setDefault, result) \<Rightarrow>
                      Inr (setDefault, if setDefault then VArr result else val))
             | _ \<Rightarrow> Inr (False, val))
          else if ty = Some ''object'' then
            (if \<not> valueNotProvided \<and> (\<not> js_truthy val \<or> \<not> is_object_default val)
             then Inr (False, val)
             else
               (let properties = (case s_properties s of Some ps \<Rightarrow> ps | None \<Rightarrow> []);
                    requires = (case s_required s of Some r \<Rightarrow> r | None \<Rightarrow> [])
                in case tpl_props_loop t h (rec h) properties
                          (if valueNotProvided then [] else assign [] val, False) of
                     Inl e \<Rightarrow> Inl e
                   | Inr st1 \<Rightarrow>
                       (case (case s_additionalProperties s of
                                Some (AddlSchema ad) \<Rightarrow>
                                  tpl_addl_loop (rec h ad) properties (map fst (fst st1)) st1
                              | _ \<Rightarrow> Inr st1) of
                          Inl e \<Rightarrow> Inl e
                        | Inr (result, setDefault1) \<Rightarrow>
                            (let setDefault =
                                   (if \<not> t_ignoreMissingRequired t \<and>
                                       list_ex (\<lambda>r. map_of result r = None) requires
                                    then False else setDefault1)
                             in Inr (setDefault, if setDefault then VObj result else val)))))
          else Inr (False, val)))))"

text \<open>\<open>applyTemplate\<close>; the first argument bounds the nesting of calls, and running out
  of it is the overflow of the call stack.\<close>

primrec applyTemplate ::
  "nat \<Rightarrow> tenv \<Rightarrow> (string \<times> addr) list \<Rightarrow> (string \<times> jsval) list \<Rightarrow> heap \<Rightarrow> addr \<Rightarrow> jsval option \<Rightarrow> tres" where
  "applyTemplate 0 t definitions params h a vopt = Inl RangeError"
| "applyTemplate (Suc n) t definitions params h a vopt =
     applyTemplate_body (applyTemplate n t definitions params) t h definitions params a vopt"

text \<open>The exported function: the \<open>value\<close> of the result, or the initial value when
  defaults, templates and variables are all switched off.\<close>

definition materialize ::
  "nat \<Rightarrow> tenv \<Rightarrow> heap \<Rightarrow> addr \<Rightarrow> (string \<times> addr) list \<Rightarrow> (string \<times> jsval) list \<Rightarrow> jsval option \<Rightarrow> exn + jsval" where
  "materialize n t h a definitions params vopt =
     (if t_useDefaults t \<or> t_useTemplates t \<or> t_useVariables t
      then (case applyTemplate n t definitions params h a vopt of
              Inl e \<Rightarrow> Inl e
            | Inr (applied, v) \<Rightarrow> Inr v)
      else Inr (or_undefined vopt))"

section \<open>The Enforcer\<close>

text \<open>
  Modelled from the spec: the Enforcer (\<open>bin/enforcer\<close>, of which only the tests are at
  hand). The kinds of error it raises, after the taxonomy of the spec.
\<close>

datatype ekind =
    TypeMismatch | LengthBound | Uniqueness | RequiredProperty | UnknownProperty
  | NumericBound | PatternViolation | EnumViolation




























section \<open>Concrete instances used to run the model\<close>

text \<open>Every rule enabled, with maximum depth \<open>d\<close>.\<close>

definition all_options :: "nat \<Rightarrow> options" where
  "all_options d = \<lparr> o_anyOf = True, o_oneOf = True, o_allOf = True, o_not = True,
     o_array = True, o_maxItems = True, o_minItems = True, o_uniqueItems = True,
     o_items = True, o_depth = d, o_binary = True, o_boolean = True, o_byte = True,
     o_date = True, o_dateTime = True, o_dateExists = True, o_timeExists = True,
     o_integer = True, o_number = True, o_object = True, o_required = True,
     o_properties = True, o_additionalProperties = True, o_maxProperties = True,
     o_minProperties = True, o_string = True, o_maxLength = True, o_minLength = True,
     o_pattern = True, o_enum = True, o_discriminator = True, o_maximum = True,
     o_minimum = True \<rparr>"

text \<open>
  A stand-in for the external modules: the type resolver answers the declared type,
  sameness is equality of values, texts are empty, no string has a special format, every
  pattern matches and no discriminator resolves.
\<close>

definition plain_ext :: ext where
  "plain_ext = \<lparr> x_schemaType = s_type, x_smart = (\<lambda>_. []), x_same = (\<lambda>a b. a = b),
     x_toString = (\<lambda>_. []), x_toNumber = (\<lambda>_. NaN), x_is_binary = (\<lambda>_. False),
     x_is_byte = (\<lambda>_. False), x_is_date = (\<lambda>_. False), x_is_dateTime = (\<lambda>_. False),
     x_rx_dateTime = (\<lambda>_. None), x_regexp_test = (\<lambda>_ _. Some True),
     x_date_value = (\<lambda>_. NaN), x_date_utc = (\<lambda>_. (NaN, NaN, NaN)),
     x_date_smart = (\<lambda>_. []), x_getDiscriminatorSchema = (\<lambda>_ _ _. None),
     x_getDiscriminatorKey = (\<lambda>_ _ _. VUndefined) \<rparr>"

definition plain_ctx :: "nat \<Rightarrow> heap \<Rightarrow> ctx" where
  "plain_ctx d h = \<lparr> c_options = all_options d, c_ext = plain_ext, c_heap = h \<rparr>"

text \<open>The schema \<open>{type: t}\<close>.\<close>

definition typed :: "string \<Rightarrow> schema" where
  "typed t = empty_schema\<lparr>s_type := Some t\<rparr>"

text \<open>
  The default options of \<open>applyTemplate\<close> with auto-format on or off and defaults passed
  through the injector or not; the injector leaves a text without placeholders as it
  is, the type resolver answers the declared type, and the conversions are not needed
  where this is used.
\<close>

definition tpl_options :: "bool \<Rightarrow> bool \<Rightarrow> tenv" where
  "tpl_options autoFormat defaultsUseParams =
     \<lparr> t_useDefaults = True, t_useTemplates = True, t_useVariables = True,
       t_autoFormat = autoFormat, t_defaultsUseParams = defaultsUseParams,
       t_ignoreMissingRequired = True, t_injector = (\<lambda>template params. VStr template),
       t_schemaType = s_type, t_convertTo = (\<lambda>name v. v), t_toKey = (\<lambda>v. []) \<rparr>"


section \<open>Well-formed stores\<close>






section \<open>Numeric validation and \<open>multipleOf\<close>\<close>

lemma multipleOf_check_falsy:
  "s_multipleOf s = None \<or> s_multipleOf s = Some (Fin 0) \<Longrightarrow> multipleOf_check c prefix s n es = es"
  by (auto simp: multipleOf_check_def)

text \<open>
  Claim C10. When the schema's \<open>multipleOf\<close> is absent or \<open>0\<close>, the \<open>multipleOf\<close> step of
  numeric validation adds no error record, and numeric validation as a whole gives what
  it gives on the schema without the keyword; whenever the step does add a record, the
  keyword is present and truthy (nonzero and not \<open>NaN\<close>), so the remainder is taken with a
  nonzero divisor only.
\<close>

theorem numerical_multipleOf_guard:
  "(s_multipleOf s = None \<or> s_multipleOf s = Some (Fin 0) \<longrightarrow>
      multipleOf_check c prefix s n es = es \<and>
      numerical descriptor c prefix s n es
        = numerical descriptor c prefix (s\<lparr>s_multipleOf := None\<rparr>) n es) \<and>
   (multipleOf_check c prefix s n es \<noteq> es \<longrightarrow>
      (\<exists>m. s_multipleOf s = Some m \<and> num_truthy m \<and> m \<noteq> Fin 0 \<and> num_mod n m \<noteq> Fin 0))"
proof -
  have a: "multipleOf_check c prefix s n es1 = multipleOf_check c prefix (s\<lparr>s_multipleOf := None\<rparr>) n es1"
    if "s_multipleOf s = None \<or> s_multipleOf s = Some (Fin 0)" for es1
    using that by (auto simp: multipleOf_check_def)
  have b: "numerical descriptor c prefix s n es
        = numerical descriptor c prefix (s\<lparr>s_multipleOf := None\<rparr>) n es"
    if "s_multipleOf s = None \<or> s_multipleOf s = Some (Fin 0)"
    using a [OF that] by (simp add: numerical_def enum_check_def)
  have c: "\<exists>m. s_multipleOf s = Some m \<and> num_truthy m \<and> m \<noteq> Fin 0 \<and> num_mod n m \<noteq> Fin 0"
    if "multipleOf_check c prefix s n es \<noteq> es"
    using that by (auto simp: multipleOf_check_def split: option.splits if_splits)
  show ?thesis
    using b c multipleOf_check_falsy [of s c prefix n es] by blast
qed

theorem numerical_multipleOf_guard_witness:
  "s_multipleOf (empty_schema\<lparr>s_multipleOf := Some (Fin 0)\<rparr>) = Some (Fin 0) \<and>
   numerical ''number'' (plain_ctx 0 []) [] (empty_schema\<lparr>s_multipleOf := Some (Fin 0)\<rparr>) (Fin 5) [] = [] \<and>
   multipleOf_check (plain_ctx 0 []) [] (empty_schema\<lparr>s_multipleOf := Some (Fin 3)\<rparr>) (Fin 5) [] \<noteq> [] \<and>
   num_mod (Fin 5) (Fin 3) = Fin 2 \<and> num_mod (Fin 5) (Fin 0) = NaN"
proof -
  have z: "numerical ''number'' (plain_ctx 0 []) [] (empty_schema\<lparr>s_multipleOf := None\<rparr>) (Fin 5) [] = []"
    by (simp add: numerical_def maxMin_def multipleOf_check_def enum_check_def plain_ctx_def
        all_options_def plain_ext_def empty_schema_def to_number_def)
  have f: "\<lfloor>(5::rat) / 3\<rfloor> = 1"
    by (simp add: floor_eq_iff)
  have nz: "multipleOf_check (plain_ctx 0 []) [] (empty_schema\<lparr>s_multipleOf := Some (Fin 3)\<rparr>) (Fin 5) [] \<noteq> []"
    by (simp add: multipleOf_check_def error_def empty_schema_def f)
  have m: "num_mod (Fin 5) (Fin 3) = Fin 2"
    by (simp add: f)
  show ?thesis
    using numerical_multipleOf_guard [of "empty_schema\<lparr>s_multipleOf := Some (Fin 0)\<rparr>"
        "plain_ctx 0 []" "[]" "Fin 5" "[]" "''number''"]
      numerical_multipleOf_guard [of "empty_schema\<lparr>s_multipleOf := Some (Fin 3)\<rparr>"
        "plain_ctx 0 []" "[]" "Fin 5" "[]" "''number''"]
      z nz m
    by (simp add: empty_schema_def)
qed


section \<open>Exceptions escaping the validator\<close>

text \<open>
  Claim C3 (the validator never throws) fails on the code. Validating \<open>null\<close> or
  \<open>undefined\<close> against \<open>{type: 'string'}\<close> with the \<open>string\<close> rule enabled throws a
  TypeError at \<open>value.length\<close>, and no error record is produced; a value of another
  type gets the error record the claim expects.
\<close>

theorem validate_string_null_throws:
  "validate 2 (plain_ctx 10 [typed ''string'']) [] 0 0 VNull [] = Inl (TypeError, []) \<and>
   validate 2 (plain_ctx 10 [typed ''string'']) [] 0 0 VUndefined [] = Inl (TypeError, []) \<and>
   validate 2 (plain_ctx 10 [typed ''string'']) [] 0 0 (VBool True) []
     = Inr [([], ''Expected a string. Received: '')]"
  by code_simp

text \<open>With the \<open>string\<close> rule enabled this holds for every schema and every prefix.\<close>

lemma validate_string_nullish:
  "o_string (c_options c) \<Longrightarrow> val = VNull \<or> val = VUndefined \<Longrightarrow>
   validate_string c prefix depth s val es = Inl (TypeError, es)"
  by (auto simp: validate_string_def)

text \<open>
  Claim C2 (a \<open>oneOf\<close> count other than one adds a single error record) fails on the
  code. With the branches \<open>{type: 'number'}\<close> and \<open>{type: 'string'}\<close>, the value \<open>true\<close>
  matches no branch, and with \<open>{type: 'number'}\<close> twice the value \<open>5\<close> matches two: in
  both cases the call \<open>v.error.push(...)\<close> throws a TypeError and \<open>v.errors\<close> is left as it
  was. With exactly one matching branch nothing is added.
\<close>

theorem validate_oneOf_count_throws:
  "validate 3 (plain_ctx 10 [empty_schema\<lparr>s_oneOf := Some [1, 2]\<rparr>, typed ''number'', typed ''string''])
      [] 0 0 (VBool True) [(''/a'', ''earlier'')] = Inl (TypeError, [(''/a'', ''earlier'')]) \<and>
   validate 3 (plain_ctx 10 [empty_schema\<lparr>s_oneOf := Some [1, 1]\<rparr>, typed ''number''])
      [] 0 0 (VNum (Fin 5)) [(''/a'', ''earlier'')] = Inl (TypeError, [(''/a'', ''earlier'')]) \<and>
   validate 3 (plain_ctx 10 [empty_schema\<lparr>s_oneOf := Some [1, 2]\<rparr>, typed ''number'', typed ''string''])
      [] 0 0 (VNum (Fin 5)) [(''/a'', ''earlier'')] = Inr [(''/a'', ''earlier'')]"
  by code_simp

text \<open>
  Claim C5 (\<open>anyOf\<close> succeeds iff some branch is free of errors, and otherwise appends one
  record and keeps the earlier ones) fails on the code where a branch throws. For
  \<open>{anyOf: [{type: 'string'}, {}]}\<close> and the value \<open>null\<close> the second branch has no error,
  yet the first one throws at \<open>value.length\<close>; the exception leaves \<open>anyOf\<close> before
  \<open>v.errors\<close> is restored, so the context is left with the branch's fresh array and not
  with the errors accumulated before. On a value that no branch throws on, the code does
  what the claim says.
\<close>

theorem validate_anyOf_branch_throws:
  "validate 3 (plain_ctx 10 [empty_schema\<lparr>s_anyOf := Some [1, 2]\<rparr>, typed ''string'', empty_schema])
      [] 0 0 VNull [(''/a'', ''earlier'')] = Inl (TypeError, []) \<and>
   validate 3 (plain_ctx 10 [empty_schema\<lparr>s_anyOf := Some [1, 2]\<rparr>, typed ''string'', empty_schema])
      [] 0 0 (VBool True) [(''/a'', ''earlier'')] = Inr [(''/a'', ''earlier'')] \<and>
   validate 3 (plain_ctx 10 [empty_schema\<lparr>s_anyOf := Some [1, 2]\<rparr>, typed ''string'', typed ''number''])
      [] 0 0 (VBool True) [(''/a'', ''earlier'')]
     = Inr [(''/a'', ''earlier''),
            ([], ''Did not match any of the schemas:'' @ newline
                 @ ''  Schema #1: Invalid'' @ newline @ ''    : Expected a string. Received: '' @ newline
                 @ ''  Schema #2: Invalid'' @ newline @ ''    : Expected a number. Received: '')]"
  by code_simp


text \<open>
  Where the validation of every branch returns, \<open>anyOf\<close> counts the branches without
  error, and \<open>validate\<close> keeps the accumulated errors and appends one record exactly when
  no branch is without error.
\<close>

lemma anyOf_loop_returns:
  assumes "\<forall>a\<in>set branches. \<exists>b. rec (prefix @ ''  '') depth a val [] = Inr b"
  shows "\<exists>errors messages.
           anyOf_loop rec prefix depth val branches i (errors0, messages0, valid0)
             = Inr (errors, messages,
                    valid0 + length (filter (\<lambda>a. rec (prefix @ ''  '') depth a val [] = Inr []) branches))"
  using assms
proof (induction branches arbitrary: i errors0 messages0 valid0)
  case Nil
  then show ?case by simp
next
  case (Cons a branches)
  then obtain b where b: "rec (prefix @ ''  '') depth a val [] = Inr b" by auto
  from Cons.prems have rest: "\<forall>a\<in>set branches. \<exists>b. rec (prefix @ ''  '') depth a val [] = Inr b"
    by simp
  show ?case
  proof (cases "b = []")
    case True
    with b Cons.IH [OF rest, of "Suc i" errors0 _ "valid0 + 1"] show ?thesis
      by (simp add: Let_def)
  next
    case False
    with b Cons.IH [OF rest, of "Suc i" _ _ valid0] show ?thesis
      by (simp add: Let_def)
  qed
qed

lemma validate_body_anyOf_returns:
  assumes s: "lookup (c_heap c) a = Some s" and on: "o_anyOf (c_options c)"
    and any: "s_anyOf s = Some branches"
    and ret: "\<forall>b\<in>set branches. \<exists>r. rec (nestedPrefix prefix @ ''  '') depth b val [] = Inr r"
  shows "\<exists>message. validate_body rec c prefix depth a val es
           = Inr (if \<exists>b\<in>set branches. rec (nestedPrefix prefix @ ''  '') depth b val [] = Inr []
                  then es else es @ [(prefix, message)])"
proof -
  let ?ok = "\<lambda>b. rec (nestedPrefix prefix @ ''  '') depth b val [] = Inr []"
  from anyOf_loop_returns [where rec = rec and prefix = "nestedPrefix prefix" and depth = depth
      and val = val and branches = branches and i = 0 and ?errors0.0 = "[]" and ?messages0.0 = "[]"
      and ?valid0.0 = 0] ret
  obtain errors messages where l: "anyOf_loop rec (nestedPrefix prefix) depth val branches 0 ([], [], 0)
      = Inr (errors, messages, length (filter ?ok branches))"
    by auto
  have z: "(length (filter ?ok branches) = 0) = (\<not> (\<exists>b\<in>set branches. ?ok b))"
    by (simp add: filter_empty_conv)
  show ?thesis
    using s on any l z by (auto simp: validate_body_def anyOf_def error_def)
qed

text \<open>Under \<open>oneOf\<close>, where every branch returns, any count of branches without error
  other than one ends in the TypeError.\<close>

lemma validate_body_oneOf_returns:
  assumes s: "lookup (c_heap c) a = Some s"
    and off: "\<not> (o_anyOf (c_options c) \<and> s_anyOf s \<noteq> None)"
    and on: "o_oneOf (c_options c)" and one: "s_oneOf s = Some branches"
    and ret: "\<forall>b\<in>set branches. \<exists>r. rec (nestedPrefix prefix @ ''  '') depth b val [] = Inr r"
  shows "validate_body rec c prefix depth a val es
           = (if length (filter (\<lambda>b. rec (nestedPrefix prefix @ ''  '') depth b val [] = Inr []) branches) = 1
              then Inr es else Inl (TypeError, es))"
proof -
  let ?ok = "\<lambda>b. rec (nestedPrefix prefix @ ''  '') depth b val [] = Inr []"
  from anyOf_loop_returns [where rec = rec and prefix = "nestedPrefix prefix" and depth = depth
      and val = val and branches = branches and i = 0 and ?errors0.0 = "[]" and ?messages0.0 = "[]"
      and ?valid0.0 = 0] ret
  obtain errors messages where l: "anyOf_loop rec (nestedPrefix prefix) depth val branches 0 ([], [], 0)
      = Inr (errors, messages, length (filter ?ok branches))"
    by auto
  have g: "(o_anyOf (c_options c) \<and> s_anyOf s \<noteq> None) = False"
    using off by simp
  show ?thesis
    unfolding validate_body_def Let_def
    by (simp add: s g on one anyOf_def l del: not_None_eq)
qed

section \<open>Termination of discriminator and \<open>allOf\<close> resolution\<close>










section \<open>The maximum depth\<close>












section \<open>The materializer\<close>

text \<open>
  Claim C4 (materialization never raises) fails on the code. For a schema with a
  discriminator and no \<open>allOf\<close>, \<open>applyTemplate\<close> evaluates \<open>value.hasOwnProperty(...)\<close>
  before anything else: without an initial value this throws a TypeError, and so does
  \<open>second.allOf\<close> when the value names a subtype that the definitions do not hold. With a
  subtype that is defined the call returns.
\<close>

theorem applyTemplate_discriminator_throws:
  "applyTemplate 2 (tpl_options True True) [] [] [(typed ''object'')\<lparr>s_discriminator := Some ''kind''\<rparr>] 0 None
     = Inl TypeError \<and>
   materialize 2 (tpl_options True True) [(typed ''object'')\<lparr>s_discriminator := Some ''kind''\<rparr>] 0 [] [] None
     = Inl TypeError \<and>
   applyTemplate 2 (tpl_options True True) [(''Cat'', 1)] []
       [(typed ''object'')\<lparr>s_discriminator := Some ''kind''\<rparr>, typed ''object'']
       0 (Some (VObj [(''kind'', VStr ''Dog'')]))
     = Inl TypeError \<and>
   applyTemplate 3 (tpl_options True True) [(''Cat'', 1)] []
       [(typed ''object'')\<lparr>s_discriminator := Some ''kind''\<rparr>, typed ''object'']
       0 (Some (VObj [(''kind'', VStr ''Cat'')]))
     = Inr (False, VObj [])"
  by code_simp

text \<open>
  Claim C6 (a conformant value comes back unchanged, also under \<open>allOf\<close>) fails on the
  code for \<open>allOf\<close>. For \<open>{allOf: [{type: 'object', properties: {a: {type: 'number',
  default: 1}}}]}\<close> and the value \<open>{a: 1}\<close> no member applies anything, and the result is
  the merge of the empty \<open>applications\<close>, the object \<open>{}\<close>, which the exported function
  returns in place of the value. The member schema alone gives the value back.
\<close>

theorem applyTemplate_allOf_drops_value:
  "applyTemplate 3 (tpl_options False True) [] []
       [empty_schema\<lparr>s_allOf := Some [1]\<rparr>, (typed ''object'')\<lparr>s_properties := Some [(''a'', 2)]\<rparr>,
        (typed ''number'')\<lparr>s_default := Some (VNum (Fin 1))\<rparr>]
       0 (Some (VObj [(''a'', VNum (Fin 1))]))
     = Inr (False, VObj []) \<and>
   materialize 3 (tpl_options False True)
       [empty_schema\<lparr>s_allOf := Some [1]\<rparr>, (typed ''object'')\<lparr>s_properties := Some [(''a'', 2)]\<rparr>,
        (typed ''number'')\<lparr>s_default := Some (VNum (Fin 1))\<rparr>]
       0 [] [] (Some (VObj [(''a'', VNum (Fin 1))]))
     = Inr (VObj []) \<and>
   applyTemplate 3 (tpl_options False True) [] []
       [empty_schema\<lparr>s_allOf := Some [1]\<rparr>, (typed ''object'')\<lparr>s_properties := Some [(''a'', 2)]\<rparr>,
        (typed ''number'')\<lparr>s_default := Some (VNum (Fin 1))\<rparr>]
       1 (Some (VObj [(''a'', VNum (Fin 1))]))
     = Inr (False, VObj [(''a'', VNum (Fin 1))])"
  by code_simp

text \<open>
  Claim C7 (the default \<open>'5'\<close> of an integer schema is materialized as the integer \<open>5\<close>
  under auto-format) fails on the code: the result is the string \<open>'5'\<close>, with the default
  passed through the injector or not.
\<close>

theorem default_not_coerced_counterexample:
  "materialize 1 (tpl_options True True) [(typed ''integer'')\<lparr>s_default := Some (VStr ''5'')\<rparr>] 0 [] [] None
     = Inr (VStr ''5'') \<and>
   materialize 1 (tpl_options True False) [(typed ''integer'')\<lparr>s_default := Some (VStr ''5'')\<rparr>] 0 [] [] None
     = Inr (VStr ''5'') \<and>
   materialize 1 (tpl_options True True) [(typed ''integer'')\<lparr>s_default := Some (VStr ''5'')\<rparr>] 0 [] [] None
     \<noteq> Inr (VNum (Fin 5))"
  by code_simp

text \<open>
  Claim C7 as amended. With defaults enabled and no initial value, a schema that declares
  a string default (and no \<open>allOf\<close>, discriminator, variable or template) materializes to
  that default, applied: the text passed through the injector when
  \<open>defaultsUseParams\<close> is set, the text itself otherwise. The declared type and format and
  the \<open>autoFormat\<close> option have no part in it.
\<close>

theorem default_returned_as_declared:
  assumes "t_useDefaults t"
  shows "applyTemplate (Suc n) t definitions params
           [empty_schema\<lparr>s_type := ty, s_format := fm, s_default := Some (VStr d)\<rparr>] 0 None
         = Inr (True, if t_defaultsUseParams t then t_injector t d params else VStr d)"
  using assms
  by (simp add: applyTemplate_body_def rewrite_discriminator_def lookup_def empty_schema_def or_undefined_def)

theorem default_returned_as_declared_witness:
  "t_useDefaults (tpl_options True True) \<and>
   applyTemplate 1 (tpl_options True True) [] [] [(typed ''integer'')\<lparr>s_default := Some (VStr ''5'')\<rparr>] 0 None
     = Inr (True, VStr ''5'')"
proof -
  have u: "t_useDefaults (tpl_options True True)" by (simp add: tpl_options_def)
  show ?thesis
    using default_returned_as_declared [OF u, where n = 0 and definitions = "[]" and params = "[]"
        and ty = "Some ''integer''" and fm = None and d = "''5''"] u
    by (simp add: typed_def empty_schema_def tpl_options_def)
qed

section \<open>The invariant of enforced values\<close>





















end
